theory Spec2Isabelle
  imports Complex_Main "HOL-Library.Sublist"
begin

section \<open>Python values and exceptions\<close>

text \<open>
  The client (\<^verbatim>\<open>api/neovolt_client.py\<close>) works on the values that \<^verbatim>\<open>json.loads\<close>
  produces.  \<open>JNull\<close> is Python's \<^verbatim>\<open>None\<close>; a JSON object is kept as the list of its
  members, looked up with \<open>map_of\<close>.  A float is represented by the rational it denotes
  (the literals \<^verbatim>\<open>NaN\<close> and \<^verbatim>\<open>Infinity\<close>, which are not JSON, are left out).
\<close>

datatype json =
    JNull
  | JBool bool
  | JInt int
  | JFloat rat
  | JStr string
  | JList "json list"
  | JDict "(string \<times> json) list"

text \<open>
  The exceptions that can travel through the client.  \<open>CancelledError n\<close> is the
  cancellation that an expiring \<^verbatim>\<open>asyncio.timeout\<close> block delivers to the pending
  \<^verbatim>\<open>await\<close>: \<open>n\<close> counts the timeout blocks that still lie between the point where
  the exception is and the block whose deadline expired.  That block turns it into
  \<open>TimeoutError\<close> when it is left; the blocks inside it pass it on
  (see \<open>scope_exit\<close> below).  Only \<open>TimeoutError\<close> and \<open>ClientError\<close> are named by
  the client's \<^verbatim>\<open>except\<close> clauses.
\<close>

datatype exn =
    TimeoutError
  | ClientError
  | CancelledError nat
  | AttributeError
  | TypeError
  | KeyError
  | ValueError
  | OverflowError

definition caught :: "exn \<Rightarrow> bool" where
  \<comment> \<open>\<^verbatim>\<open>except (asyncio.TimeoutError, aiohttp.ClientError)\<close>\<close>
  "caught e = (e = TimeoutError \<or> e = ClientError)"

definition ebind :: "exn + 'a \<Rightarrow> ('a \<Rightarrow> exn + 'b) \<Rightarrow> exn + 'b" where
  "ebind r f = (case r of Inl e \<Rightarrow> Inl e | Inr x \<Rightarrow> f x)"

fun py_truthy :: "json \<Rightarrow> bool" where
  "py_truthy JNull = False"
| "py_truthy (JBool b) = b"
| "py_truthy (JInt i) = (i \<noteq> 0)"
| "py_truthy (JFloat q) = (q \<noteq> 0)"
| "py_truthy (JStr s) = (s \<noteq> [])"
| "py_truthy (JList xs) = (xs \<noteq> [])"
| "py_truthy (JDict kvs) = (kvs \<noteq> [])"

fun py_eq_int :: "json \<Rightarrow> int \<Rightarrow> bool" where
  \<comment> \<open>\<^verbatim>\<open>v == n\<close> for an integer literal \<open>n\<close>; \<^verbatim>\<open>False == 0\<close> and \<^verbatim>\<open>200.0 == 200\<close> hold in Python\<close>
  "py_eq_int (JInt i) n = (i = n)"
| "py_eq_int (JFloat q) n = (q = of_int n)"
| "py_eq_int (JBool b) n = ((if b then 1 else 0) = n)"
| "py_eq_int _ n = False"

fun py_get_default :: "json \<Rightarrow> string \<Rightarrow> json \<Rightarrow> exn + json" where
  \<comment> \<open>\<^verbatim>\<open>v.get(k, default)\<close>: only a dict has the method\<close>
  "py_get_default (JDict kvs) k dflt = Inr (case map_of kvs k of None \<Rightarrow> dflt | Some v \<Rightarrow> v)"
| "py_get_default _ k dflt = Inl AttributeError"

definition py_get :: "json \<Rightarrow> string \<Rightarrow> exn + json" where
  \<comment> \<open>\<^verbatim>\<open>v.get(k)\<close>\<close>
  "py_get v k = py_get_default v k JNull"

fun py_contains :: "json \<Rightarrow> string \<Rightarrow> exn + bool" where
  \<comment> \<open>\<^verbatim>\<open>k in v\<close> for a string \<open>k\<close>: a key of a dict, an element of a list, a substring of a string\<close>
  "py_contains (JDict kvs) k = Inr (map_of kvs k \<noteq> None)"
| "py_contains (JList xs) k = Inr (JStr k \<in> set xs)"
| "py_contains (JStr s) k = Inr (sublist k s)"
| "py_contains _ k = Inl TypeError"

fun py_getitem :: "json \<Rightarrow> string \<Rightarrow> exn + json" where
  \<comment> \<open>\<^verbatim>\<open>v[k]\<close> for a string \<open>k\<close>\<close>
  "py_getitem (JDict kvs) k = (case map_of kvs k of None \<Rightarrow> Inl KeyError | Some v \<Rightarrow> Inr v)"
| "py_getitem _ k = Inl TypeError"

fun py_keys :: "json \<Rightarrow> exn + unit" where
  \<comment> \<open>\<^verbatim>\<open>list(v.keys())\<close>, for its exception only\<close>
  "py_keys (JDict kvs) = Inr ()"
| "py_keys _ = Inl AttributeError"

section \<open>The session, the client and its collaborators\<close>

text \<open>
  What the vendor answers to one request.  \<open>text_result\<close> and \<open>json_result\<close> are what
  \<^verbatim>\<open>await response.text()\<close> and \<^verbatim>\<open>await response.json()\<close> do for this response: both
  read the body and can raise (\<^verbatim>\<open>aiohttp\<close> raises \<^verbatim>\<open>ContentTypeError\<close>, a
  \<^verbatim>\<open>ClientError\<close>, for a body that is not served as JSON, and \<^verbatim>\<open>json.loads\<close> raises a
  \<^verbatim>\<open>ValueError\<close> for one that does not parse).
\<close>

record response =
  status :: int
  text_result :: "exn + string"
  json_result :: "exn + json"

datatype outcome = Response response | Raises exn

datatype body =
    JsonBody "(string \<times> string) list"
  | FormBody "(string \<times> string) list"

datatype request =
    Post string string body
  | Get string string "(string \<times> string) list" json

datatype level = Warning | Error

datatype event = Sent request nat | Logged level string

text \<open>
  The fields of \<^verbatim>\<open>NeovoltClient\<close> set by \<^verbatim>\<open>__init__\<close>, with the token \<open>JNull\<close> at first.
  The \<^verbatim>\<open>aiohttp\<close> session is \<open>pending\<close>, the outcomes of the requests still to
  come, in order; \<open>events\<close> records each request sent, with the bound of the
  \<^verbatim>\<open>asyncio.timeout\<close> block around it, and each record logged at warning or error level.
  A request sent when \<open>pending\<close> is exhausted finds the vendor unreachable.  A request
  is recorded with the base URL and the path that make up its URL; a \<open>Get\<close> with its query
  parameters and the token of its \<^verbatim>\<open>Authorization: Bearer\<close> header (the other headers,
  among them the clock-dependent \<^verbatim>\<open>operationDate\<close>, are not recorded).
\<close>

record client =
  username :: string
  password :: string
  base_url :: string
  token :: json
  pending :: "outcome list"
  events :: "event list"

text \<open>
  Code that is used by the client and not part of it: \<^verbatim>\<open>encrypt_password\<close> of
  \<^verbatim>\<open>neovolt_auth\<close>, the formatted date of \<^verbatim>\<open>dt_util.now()\<close>, and Python's arithmetic in
  the expressions \<^verbatim>\<open>round(x * 100, 2)\<close> and \<^verbatim>\<open>round(x / 1000, 2)\<close>, which is
  floating-point arithmetic on most inputs and raises on others.
\<close>

record deps =
  encrypt_password :: "string \<Rightarrow> string \<Rightarrow> string"
  today :: string
  round_times_100 :: "json \<Rightarrow> exn + json"
  round_div_1000 :: "json \<Rightarrow> exn + json"

definition DEFAULT_TIMEOUT :: nat where
  "DEFAULT_TIMEOUT = 30"

definition DEFAULT_BASE_URL :: string where
  "DEFAULT_BASE_URL = ''https://monitor.byte-watt.com''"

definition init :: "string \<Rightarrow> string \<Rightarrow> string \<Rightarrow> outcome list \<Rightarrow> client" where
  "init user pw url session =
     \<lparr>username = user, password = pw, base_url = url, token = JNull,
      pending = session, events = []\<rparr>"

section \<open>Awaiting, timeout blocks and handlers\<close>

type_synonym 'a prog = "client \<Rightarrow> (exn + 'a) \<times> client"

definition ret :: "'a \<Rightarrow> 'a prog" where
  "ret x = (\<lambda>c. (Inr x, c))"

definition lift :: "exn + 'a \<Rightarrow> 'a prog" where
  "lift r = (\<lambda>c. (r, c))"

definition bind :: "'a prog \<Rightarrow> ('a \<Rightarrow> 'b prog) \<Rightarrow> 'b prog" where
  "bind m f = (\<lambda>c. case m c of (Inl e, c') \<Rightarrow> (Inl e, c') | (Inr x, c') \<Rightarrow> f x c')"

definition logger :: "level \<Rightarrow> string \<Rightarrow> unit prog" where
  "logger lvl msg = (\<lambda>c. (Inr (), c\<lparr>events := events c @ [Logged lvl msg]\<rparr>))"

definition session_request :: "request \<Rightarrow> response prog" where
  \<comment> \<open>\<^verbatim>\<open>await self.session.post(...)\<close> and \<^verbatim>\<open>await self.session.get(...)\<close>\<close>
  "session_request r = (\<lambda>c.
     let c' = c\<lparr>events := events c @ [Sent r DEFAULT_TIMEOUT]\<rparr> in
     case pending c of
       [] \<Rightarrow> (Inl ClientError, c')
     | Raises e # rest \<Rightarrow> (Inl e, c'\<lparr>pending := rest\<rparr>)
     | Response resp # rest \<Rightarrow> (Inr resp, c'\<lparr>pending := rest\<rparr>))"

fun leave_scope :: "exn \<Rightarrow> exn" where
  \<comment> \<open>what an exception is once it has left an \<^verbatim>\<open>asyncio.timeout\<close> block\<close>
  "leave_scope (CancelledError 0) = TimeoutError"
| "leave_scope (CancelledError (Suc n)) = CancelledError n"
| "leave_scope e = e"

fun scope_exit :: "(exn + 'a) \<times> client \<Rightarrow> (exn + 'a) \<times> client" where
  \<comment> \<open>leaving \<^verbatim>\<open>async with asyncio.timeout(DEFAULT_TIMEOUT)\<close>\<close>
  "scope_exit (Inl e, c) = (Inl (leave_scope e), c)"
| "scope_exit (Inr x, c) = (Inr x, c)"

definition timeout_scope :: "'a prog \<Rightarrow> 'a prog" where
  "timeout_scope m = (\<lambda>c. scope_exit (m c))"

definition handle :: "(exn + 'a) \<times> client \<Rightarrow> 'a prog \<Rightarrow> (exn + 'a) \<times> client" where
  \<comment> \<open>\<^verbatim>\<open>try: ... except (asyncio.TimeoutError, aiohttp.ClientError) as error: h\<close>\<close>
  "handle r h = (case r of
       (Inl e, c) \<Rightarrow> if caught e then h c else (Inl e, c)
     | (Inr x, c) \<Rightarrow> (Inr x, c))"

definition try_except :: "'a prog \<Rightarrow> 'a prog \<Rightarrow> 'a prog" where
  "try_except m h = (\<lambda>c. handle (m c) h)"

definition with_client :: "(client \<Rightarrow> 'a prog) \<Rightarrow> 'a prog" where
  \<comment> \<open>a method body that reads the fields of \<^verbatim>\<open>self\<close>\<close>
  "with_client body = (\<lambda>c. body c c)"

section \<open>Login\<close>

definition login_path :: string where
  "login_path = ''/api/usercenter/cloud/user/login''"

definition code_is_error :: "json \<Rightarrow> exn + bool" where
  \<comment> \<open>\<^verbatim>\<open>result.get("code") != 0 and result.get("code") != 200\<close>\<close>
  "code_is_error result =
     ebind (py_get result ''code'') (\<lambda>code.
       if \<not> py_eq_int code 0 then
         ebind (py_get result ''code'') (\<lambda>code'. Inr (\<not> py_eq_int code' 200))
       else Inr False)"

definition extract_token :: "json \<Rightarrow> exn + json option" where
  \<comment> \<open>lines 80-86 and 133-139: \<open>Some\<close> the value to assign, \<open>None\<close> for the \<^verbatim>\<open>else\<close> branch\<close>
  "extract_token result =
     ebind (py_contains result ''token'') (\<lambda>top.
       if top then ebind (py_getitem result ''token'') (\<lambda>t. Inr (Some t))
       else ebind (py_contains result ''data'') (\<lambda>has_data.
         if \<not> has_data then Inr None
         else ebind (py_getitem result ''data'') (\<lambda>data.
           if \<not> py_truthy data then Inr None
           else ebind (py_contains data ''token'') (\<lambda>nested.
             if nested then
               ebind (py_getitem result ''data'') (\<lambda>data'.
                 ebind (py_getitem data' ''token'') (\<lambda>t. Inr (Some t)))
             else Inr None))))"

definition store_token :: "string \<Rightarrow> json \<Rightarrow> bool prog" where
  "store_token msg result =
     bind (lift (extract_token result)) (\<lambda>found.
       case found of
         Some t \<Rightarrow> (\<lambda>c. (Inr True, c\<lparr>token := t\<rparr>))
       | None \<Rightarrow> bind (logger Error msg) (\<lambda>_. ret False))"

definition async_login_fallback :: "bool prog" where
  "async_login_fallback = with_client (\<lambda>c.
     try_except
       (timeout_scope
         (bind (session_request
                  (Post (base_url c) login_path
                     (FormBody [(''username'', username c), (''password'', password c)])))
            (\<lambda>response.
              if status response \<noteq> 200 then
                bind (lift (text_result response)) (\<lambda>_.
                bind (logger Error ''Fallback login failed with status %s: %s'') (\<lambda>_.
                ret False))
              else
                bind (lift (json_result response)) (\<lambda>result.
                bind (lift (code_is_error result)) (\<lambda>bad.
                  if bad then
                    bind (logger Error ''Fallback login failed with code %s: %s'') (\<lambda>_.
                    ret False)
                  else store_token ''No token found in fallback login response'' result)))))
       (bind (logger Error ''Error connecting to Neovolt API with fallback method: %s'')
          (\<lambda>_. ret False)))"

definition async_login :: "deps \<Rightarrow> bool prog" where
  "async_login d = with_client (\<lambda>c.
     try_except
       (timeout_scope
         (bind (session_request
                  (Post (base_url c) login_path
                     (JsonBody [(''username'', username c),
                                (''password'', encrypt_password d (password c) (username c))])))
            (\<lambda>response.
              if status response \<noteq> 200 then
                bind (lift (text_result response)) (\<lambda>_.
                bind (logger Error ''Login failed with status %s: %s'') (\<lambda>_.
                async_login_fallback))
              else
                bind (lift (json_result response)) (\<lambda>result.
                bind (lift (code_is_error result)) (\<lambda>bad.
                  if bad then
                    bind (logger Error ''Login failed with code %s: %s'') (\<lambda>_.
                    async_login_fallback)
                  else store_token ''No token found in login response'' result)))))
       (bind (logger Error ''Error connecting to Neovolt API: %s'') (\<lambda>_.
        async_login_fallback)))"

section \<open>Device list\<close>

definition ensure_token :: "deps \<Rightarrow> bool prog" where
  \<comment> \<open>\<^verbatim>\<open>if not self.token: if not await self.async_login(): return None\<close>;
      \<open>True\<close> when the operation goes on\<close>
  "ensure_token d = (\<lambda>c. if \<not> py_truthy (token c) then async_login d c else (Inr True, c))"

definition report_status :: "string \<Rightarrow> response \<Rightarrow> unit prog" where
  \<comment> \<open>\<^verbatim>\<open>_LOGGER.error(msg, response.status, await response.text())\<close>\<close>
  "report_status msg response =
     bind (lift (text_result response)) (\<lambda>_. logger Error msg)"

definition device_list_body :: "response \<Rightarrow> json prog" where
  \<comment> \<open>lines 177-187\<close>
  "device_list_body response =
     bind (lift (json_result response)) (\<lambda>result.
     bind (lift (code_is_error result)) (\<lambda>bad.
       if bad then
         bind (logger Error ''Failed to get device list with code %s: %s'') (\<lambda>_. ret JNull)
       else lift (py_get result ''data'')))"

definition devices_path :: string where
  "devices_path = ''/api/devices/list''"

function async_get_device_list :: "deps \<Rightarrow> client \<Rightarrow> (exn + json) \<times> client" where
  "async_get_device_list d c =
    (case ensure_token d c of
       (Inl e, c1) \<Rightarrow> (Inl e, c1)
     | (Inr False, c1) \<Rightarrow> (Inr JNull, c1)
     | (Inr True, c1) \<Rightarrow>
         handle
           (scope_exit
             (case session_request (Get (base_url c1) devices_path [] (token c1)) c1 of
                (Inl e, c2) \<Rightarrow> (Inl e, c2)
              | (Inr response, c2) \<Rightarrow>
                  if status response \<noteq> 200 then
                    (case report_status ''Failed to get device list with status %s: %s''
                            response c2 of
                       (Inl e, c3) \<Rightarrow> (Inl e, c3)
                     | (Inr _, c3) \<Rightarrow>
                         if status response = 401 then
                           (case async_login d c3 of
                              (Inl e, c4) \<Rightarrow> (Inl e, c4)
                            | (Inr True, c4) \<Rightarrow> async_get_device_list d c4
                            | (Inr False, c4) \<Rightarrow> (Inr JNull, c4))
                         else (Inr JNull, c3))
                  else device_list_body response c2))
           (bind (logger Error ''Error fetching device list: %s'') (\<lambda>_. ret JNull)))"
  by pat_completeness auto

section \<open>Battery data\<close>

type_synonym telemetry = "string \<Rightarrow> json option"

text \<open>
  How a block of \<^verbatim>\<open>async_get_battery_data\<close> ends: with a \<^verbatim>\<open>return\<close> of the whole
  operation, or by falling through to the next block with the \<^verbatim>\<open>battery_data\<close>
  gathered so far.
\<close>

datatype flow = Return "telemetry option" | Continue telemetry

fun py_update :: "telemetry \<Rightarrow> json \<Rightarrow> exn + telemetry" where
  \<comment> \<open>\<^verbatim>\<open>battery_data.update(v)\<close>.  A non-empty list or string would be read as a
      sequence of pairs; the client never gets there with one (\<open>merge_power\<close>).\<close>
  "py_update bd (JDict kvs) = Inr (bd ++ map_of kvs)"
| "py_update bd (JList xs) = (if xs = [] then Inr bd else Inl ValueError)"
| "py_update bd (JStr s) = (if s = [] then Inr bd else Inl ValueError)"
| "py_update bd _ = Inl TypeError"

definition merge_power :: "telemetry \<Rightarrow> json \<Rightarrow> exn + telemetry" where
  \<comment> \<open>lines 257-260: \<^verbatim>\<open>list(power_data.keys()) if power_data else None\<close> is evaluated
      for the debug record, then \<^verbatim>\<open>battery_data.update(power_data)\<close>\<close>
  "merge_power bd power_data =
     ebind (if py_truthy power_data then py_keys power_data else Inr ()) (\<lambda>_.
       py_update bd power_data)"

fun copy_fields :: "(string \<times> string) list \<Rightarrow> json \<Rightarrow> telemetry \<Rightarrow> exn + telemetry" where
  \<comment> \<open>a run of assignments \<^verbatim>\<open>battery_data[key] = source.get(field)\<close>\<close>
  "copy_fields [] source bd = Inr bd"
| "copy_fields ((key, field) # rest) source bd =
     ebind (py_get source field) (\<lambda>v. copy_fields rest source (bd(key \<mapsto> v)))"

definition set_if_present ::
  "string \<Rightarrow> (json \<Rightarrow> exn + json) \<Rightarrow> json \<Rightarrow> telemetry \<Rightarrow> exn + telemetry" where
  \<comment> \<open>\<^verbatim>\<open>if v is not None: battery_data[key] = f(v)\<close>\<close>
  "set_if_present key f v bd =
     (if v \<noteq> JNull then ebind (f v) (\<lambda>r. Inr (bd(key \<mapsto> r))) else Inr bd)"

definition power_body :: "response \<Rightarrow> flow prog" where
  \<comment> \<open>lines 244-260\<close>
  "power_body response =
     bind (lift (json_result response)) (\<lambda>result.
     bind (lift (code_is_error result)) (\<lambda>bad.
       if bad then
         bind (logger Error ''Failed to get battery power data with code %s: %s'') (\<lambda>_.
         ret (Return None))
       else
         bind (lift (py_get_default result ''data'' (JDict []))) (\<lambda>power_data.
         bind (lift (merge_power Map.empty power_data)) (\<lambda>battery_data.
         ret (Continue battery_data)))))"

definition stats_code_ok :: "json \<Rightarrow> exn + bool" where
  \<comment> \<open>\<^verbatim>\<open>stats_result.get("code") == 200 or stats_result.get("code") == 0\<close>\<close>
  "stats_code_ok result =
     ebind (py_get result ''code'') (\<lambda>code.
       if py_eq_int code 200 then Inr True
       else ebind (py_get result ''code'') (\<lambda>code'. Inr (py_eq_int code' 0)))"

definition today_code_ok :: "json \<Rightarrow> exn + bool" where
  \<comment> \<open>\<^verbatim>\<open>today_result.get("code") == 200\<close>\<close>
  "today_code_ok result = ebind (py_get result ''code'') (\<lambda>code. Inr (py_eq_int code 200))"

definition stats_fields :: "(string \<times> string) list" where
  "stats_fields =
     [(''Total_Solar_Generation'', ''epvT''),
      (''Total_Feed_In'', ''eout''),
      (''Total_Battery_Charge'', ''echarge''),
      (''PV_Power_House'', ''epv2load''),
      (''PV_Charging_Battery'', ''epvcharge''),
      (''Total_House_Consumption'', ''eload''),
      (''Grid_Based_Battery_Charge'', ''egridCharge''),
      (''Grid_Power_Consumption'', ''einput'')]"

definition today_energy_fields :: "(string \<times> string) list" where
  "today_energy_fields =
     [(''PV_Generated_Today'', ''epvtoday''),
      (''Total_PV_Generation'', ''epvtotal''),
      (''Consumed_Today'', ''eload''),
      (''Feed_In_Today'', ''eoutput''),
      (''Grid_Import_Today'', ''einput''),
      (''Battery_Charged_Today'', ''echarge''),
      (''Battery_Discharged_Today'', ''edischarge'')]"

definition map_stats :: "json \<Rightarrow> telemetry \<Rightarrow> exn + telemetry" where
  \<comment> \<open>lines 302-321\<close>
  "map_stats stats_data bd =
     ebind (if py_truthy stats_data then py_keys stats_data else Inr ()) (\<lambda>_.
       if py_truthy stats_data then copy_fields stats_fields stats_data bd else Inr bd)"

definition map_today :: "deps \<Rightarrow> json \<Rightarrow> telemetry \<Rightarrow> exn + telemetry" where
  \<comment> \<open>lines 366-393\<close>
  "map_today d today_data bd =
     (if py_truthy today_data then
        ebind (copy_fields today_energy_fields today_data bd) (\<lambda>bd1.
        ebind (py_get today_data ''eselfConsumption'') (\<lambda>self_consumption.
        ebind (set_if_present ''Self_Consumption'' (round_times_100 d) self_consumption bd1) (\<lambda>bd2.
        ebind (py_get today_data ''eselfSufficiency'') (\<lambda>self_sufficiency.
        ebind (set_if_present ''Self_Sufficiency'' (round_times_100 d) self_sufficiency bd2) (\<lambda>bd3.
        ebind (copy_fields [(''Trees_Planted'', ''treeNum'')] today_data bd3) (\<lambda>bd4.
        ebind (py_get today_data ''carbonNum'') (\<lambda>carbon_kg.
        ebind (set_if_present ''CO2_Reduction_Tons'' (round_div_1000 d) carbon_kg bd4) (\<lambda>bd5.
        copy_fields [(''Today_Income'', ''todayIncome''), (''Total_Income'', ''totalIncome'')]
          today_data bd5))))))))
      else Inr bd)"

definition try_request :: "string \<Rightarrow> request \<Rightarrow> response option prog" where
  \<comment> \<open>lines 284-294 and 347-356: the inner \<^verbatim>\<open>try\<close> around the request alone;
      \<open>None\<close> when its handler has run\<close>
  "try_request msg r =
     try_except
       (bind (session_request r) (\<lambda>response. ret (Some response)))
       (bind (logger Warning msg) (\<lambda>_. ret None))"

definition fetch_energy_statistics ::
  "deps \<Rightarrow> string \<Rightarrow> json \<Rightarrow> telemetry \<Rightarrow> flow prog" where
  \<comment> \<open>lines 282-332\<close>
  "fetch_energy_statistics d station headers bd = with_client (\<lambda>c.
     timeout_scope
       (bind (try_request ''Error fetching energy statistics: %s''
                (Get (base_url c) ''/api/report/energy/getEnergyStatistics''
                   [(''sysSn'', ''All''), (''stationId'', station),
                    (''beginDate'', ''2020-01-01''), (''endDate'', today d)]
                   headers))
          (\<lambda>got. case got of
             None \<Rightarrow> ret (Return (Some bd))
           | Some stats_response \<Rightarrow>
               if status stats_response = 200 then
                 bind (lift (json_result stats_response)) (\<lambda>stats_result.
                 bind (lift (stats_code_ok stats_result)) (\<lambda>ok.
                   if ok then
                     bind (lift (py_get_default stats_result ''data'' (JDict []))) (\<lambda>stats_data.
                     bind (lift (map_stats stats_data bd)) (\<lambda>bd'.
                     ret (Continue bd')))
                   else
                     bind (logger Warning ''Failed to get energy statistics with code %s: %s'')
                       (\<lambda>_. ret (Continue bd))))
               else
                 bind (logger Warning ''Failed to get energy statistics with status %s'')
                   (\<lambda>_. ret (Continue bd)))))"

definition fetch_today_stats ::
  "deps \<Rightarrow> string \<Rightarrow> json \<Rightarrow> telemetry \<Rightarrow> flow prog" where
  \<comment> \<open>lines 346-404\<close>
  "fetch_today_stats d station headers bd = with_client (\<lambda>c.
     timeout_scope
       (bind (try_request ''Error fetching today's stats: %s''
                (Get (base_url c) ''/api/stable/home/getSumDataForCustomer''
                   [(''sn'', ''All''), (''stationId'', station), (''tday'', today d)]
                   headers))
          (\<lambda>got. case got of
             None \<Rightarrow> ret (Return (Some bd))
           | Some today_response \<Rightarrow>
               if status today_response = 200 then
                 bind (lift (json_result today_response)) (\<lambda>today_result.
                 bind (lift (today_code_ok today_result)) (\<lambda>ok.
                   if ok then
                     bind (lift (py_get_default today_result ''data'' (JDict []))) (\<lambda>today_data.
                     bind (lift (map_today d today_data bd)) (\<lambda>bd'.
                     ret (Continue bd')))
                   else
                     bind (logger Warning ''Failed to get today's stats with code %s: %s'')
                       (\<lambda>_. ret (Continue bd))))
               else
                 bind (logger Warning ''Failed to get today's stats with status %s'')
                   (\<lambda>_. ret (Continue bd)))))"

definition stats_and_today ::
  "deps \<Rightarrow> string \<Rightarrow> json \<Rightarrow> telemetry \<Rightarrow> telemetry option prog" where
  \<comment> \<open>lines 262-407, after the power data has been merged\<close>
  "stats_and_today d station headers bd =
     bind (fetch_energy_statistics d station headers bd) (\<lambda>after_stats.
       case after_stats of
         Return r \<Rightarrow> ret r
       | Continue bd1 \<Rightarrow>
           bind (fetch_today_stats d station headers bd1) (\<lambda>after_today.
             case after_today of
               Return r \<Rightarrow> ret r
             | Continue bd2 \<Rightarrow> ret (Some bd2)))"

fun returned :: "(exn + telemetry option) \<times> client \<Rightarrow> (exn + flow) \<times> client" where
  \<comment> \<open>\<^verbatim>\<open>return await self.async_get_battery_data(station_id)\<close>\<close>
  "returned (Inl e, c) = (Inl e, c)"
| "returned (Inr r, c) = (Inr (Return r), c)"

definition power_path :: string where
  "power_path = ''/api/report/energyStorage/getLastPowerData''"

function async_get_battery_data ::
  "deps \<Rightarrow> string option \<Rightarrow> client \<Rightarrow> (exn + telemetry option) \<times> client" where
  "async_get_battery_data d station_id c =
    (case ensure_token d c of
       (Inl e, c1) \<Rightarrow> (Inl e, c1)
     | (Inr False, c1) \<Rightarrow> (Inr None, c1)
     | (Inr True, c1) \<Rightarrow>
         let station = (case station_id of None \<Rightarrow> [] | Some s \<Rightarrow> s);
             headers = token c1
         in
         handle
           (case scope_exit
              (case session_request
                      (Get (base_url c1) power_path
                         [(''sysSn'', ''All''), (''stationId'', station)] headers)
                      c1 of
                 (Inl e, c2) \<Rightarrow> (Inl e, c2)
               | (Inr response, c2) \<Rightarrow>
                   if status response \<noteq> 200 then
                     (case report_status ''Failed to get battery power data with status %s: %s''
                             response c2 of
                        (Inl e, c3) \<Rightarrow> (Inl e, c3)
                      | (Inr _, c3) \<Rightarrow>
                          if status response = 401 then
                            (case async_login d c3 of
                               (Inl e, c4) \<Rightarrow> (Inl e, c4)
                             | (Inr True, c4) \<Rightarrow>
                                 returned (async_get_battery_data d station_id c4)
                             | (Inr False, c4) \<Rightarrow> (Inr (Return None), c4))
                          else (Inr (Return None), c3))
                   else power_body response c2)
            of
              (Inl e, c5) \<Rightarrow> (Inl e, c5)
            | (Inr (Return r), c5) \<Rightarrow> (Inr r, c5)
            | (Inr (Continue battery_data), c5) \<Rightarrow>
                stats_and_today d station headers battery_data c5)
           (bind (logger Error ''Error fetching battery data: %s'') (\<lambda>_. ret None)))"
  by pat_completeness auto

section \<open>Fixtures for the examples\<close>

text \<open>
  A response with status 200 and a JSON body, and an error page: a status, a body that is
  not JSON.  \<open>demo_deps\<close> is one choice of the collaborators.  Its arithmetic is decimal:
  the product and the quotient are exact and are rounded to two places, half to even, as
  \<^verbatim>\<open>round\<close> does.  An integer or a boolean times 100 stays an integer, a float gives a
  float, a division always gives a float, and every other operand raises \<^verbatim>\<open>TypeError\<close>,
  as in Python; what it leaves out is the representation error of a binary float.
\<close>

definition round_half_even :: "rat \<Rightarrow> int" where
  "round_half_even q =
     (let f = \<lfloor>q\<rfloor>; r = q - of_int f in
      if r < 1 / 2 then f else if 1 / 2 < r then f + 1 else if even f then f else f + 1)"

definition round2 :: "rat \<Rightarrow> rat" where
  \<comment> \<open>\<^verbatim>\<open>round(q, 2)\<close>\<close>
  "round2 q = of_int (round_half_even (q * 100)) / 100"

fun times_100 :: "json \<Rightarrow> exn + json" where
  \<comment> \<open>\<^verbatim>\<open>round(v * 100, 2)\<close>\<close>
  "times_100 (JInt i) = Inr (JInt (i * 100))"
| "times_100 (JBool b) = Inr (JInt (if b then 100 else 0))"
| "times_100 (JFloat q) = Inr (JFloat (round2 (q * 100)))"
| "times_100 v = Inl TypeError"

fun div_1000 :: "json \<Rightarrow> exn + json" where
  \<comment> \<open>\<^verbatim>\<open>round(v / 1000, 2)\<close>\<close>
  "div_1000 (JInt i) = Inr (JFloat (round2 (of_int i / 1000)))"
| "div_1000 (JBool b) = Inr (JFloat (round2 ((if b then 1 else 0) / 1000)))"
| "div_1000 (JFloat q) = Inr (JFloat (round2 (q / 1000)))"
| "div_1000 v = Inl TypeError"

definition ok_response :: "json \<Rightarrow> response" where
  "ok_response b = \<lparr>status = 200, text_result = Inr [], json_result = Inr b\<rparr>"

definition status_response :: "int \<Rightarrow> response" where
  "status_response n = \<lparr>status = n, text_result = Inr [], json_result = Inl ClientError\<rparr>"

definition demo_deps :: deps where
  "demo_deps =
     \<lparr>encrypt_password = (\<lambda>pw user. rev pw),
      today = ''2024-05-01'',
      round_times_100 = times_100,
      round_div_1000 = div_1000\<rparr>"

definition demo_client :: "json \<Rightarrow> outcome list \<Rightarrow> client" where
  "demo_client t session = (init ''user'' ''secret'' DEFAULT_BASE_URL session)\<lparr>token := t\<rparr>"

section \<open>Relations between the state before and after\<close>

text \<open>
  \<open>preserves R m\<close>: running \<open>m\<close> takes every state to one related to it by \<open>R\<close>,
  whatever \<open>m\<close> returns or raises.
\<close>

definition preserves :: "(client \<Rightarrow> client \<Rightarrow> bool) \<Rightarrow> 'a prog \<Rightarrow> bool" where
  "preserves R m = (\<forall>c. R c (snd (m c)))"

definition consumes :: "client \<Rightarrow> client \<Rightarrow> bool" where
  \<comment> \<open>the outcomes still pending are what is left of those pending before\<close>
  "consumes c c' = suffix (pending c') (pending c)"

definition same_token :: "client \<Rightarrow> client \<Rightarrow> bool" where
  "same_token c c' = (token c' = token c)"

definition unless_true :: "bool prog \<Rightarrow> bool" where
  \<comment> \<open>the token is written only when \<open>True\<close> is returned\<close>
  "unless_true m = (\<forall>c. token (snd (m c)) = token c \<or> fst (m c) = Inr True)"

section \<open>Notions used to state the claims\<close>

text \<open>
  The vendor code of a response body, and the token as the specification describes its
  extraction: the top-level \<^verbatim>\<open>token\<close> member first, the \<^verbatim>\<open>token\<close> member of the
  \<^verbatim>\<open>data\<close> object second.  \<open>data_checkable\<close> holds of the bodies on which the client's
  test \<^verbatim>\<open>"token" in result["data"]\<close> and the subscript after it are defined.
\<close>

definition vendor_code :: "(string \<times> json) list \<Rightarrow> json" where
  "vendor_code kvs = (case map_of kvs ''code'' of None \<Rightarrow> JNull | Some v \<Rightarrow> v)"

definition spec_token :: "(string \<times> json) list \<Rightarrow> json option" where
  "spec_token kvs =
     (case map_of kvs ''token'' of
        Some t \<Rightarrow> Some t
      | None \<Rightarrow> (case map_of kvs ''data'' of Some (JDict dk) \<Rightarrow> map_of dk ''token'' | _ \<Rightarrow> None))"

definition data_checkable :: "(string \<times> json) list \<Rightarrow> bool" where
  "data_checkable kvs =
     (case map_of kvs ''token'' of
        Some t \<Rightarrow> True
      | None \<Rightarrow>
         (case map_of kvs ''data'' of
            None \<Rightarrow> True
          | Some (JDict dk) \<Rightarrow> True
          | Some (JList xs) \<Rightarrow> JStr ''token'' \<notin> set xs
          | Some (JStr s) \<Rightarrow> \<not> sublist ''token'' s
          | Some v \<Rightarrow> \<not> py_truthy v))"






fun is_data_request :: "string \<Rightarrow> event \<Rightarrow> bool" where
  "is_data_request path (Sent (Get b p q t) n) = (p = path)"
| "is_data_request path ev = False"

definition data_requests :: "string \<Rightarrow> event list \<Rightarrow> nat" where
  "data_requests path evs = length (filter (is_data_request path) evs)"

definition login_posts :: "event list \<Rightarrow> nat" where
  "login_posts evs =
     length (filter (\<lambda>ev. case ev of Sent (Post b p (JsonBody kvs)) n \<Rightarrow> True | _ \<Rightarrow> False) evs)"

definition fallback_posts :: "event list \<Rightarrow> nat" where
  "fallback_posts evs =
     length (filter (\<lambda>ev. case ev of Sent (Post b p (FormBody kvs)) n \<Rightarrow> True | _ \<Rightarrow> False) evs)"

text \<open>
  The responses with status 401 among the outcomes, and a budget: the data requests sent so
  far plus the 401 responses still to come.  \<open>within_budget\<close> relates two states when
  the budget has not grown, \<open>one_more\<close> when it has grown by one at most.
\<close>

fun is_401 :: "outcome \<Rightarrow> bool" where
  "is_401 (Response r) = (status r = 401)"
| "is_401 (Raises e) = False"

definition unauthorized :: "outcome list \<Rightarrow> nat" where
  "unauthorized ps = length (filter is_401 ps)"

definition budget :: "string \<Rightarrow> client \<Rightarrow> nat" where
  "budget path c = data_requests path (events c) + unauthorized (pending c)"

definition within_budget :: "string \<Rightarrow> client \<Rightarrow> client \<Rightarrow> bool" where
  "within_budget path c c' = (budget path c' \<le> budget path c)"

definition one_more :: "string \<Rightarrow> client \<Rightarrow> client \<Rightarrow> bool" where
  "one_more path c c' = (budget path c' \<le> budget path c + 1)"








text \<open>
  One re-login and one retry, as the specification describes the reaction to a 401: log in
  again; when that returns true run the operation again and give its result, otherwise
  give the absent result.  The timeout block and the handler are those the reaction runs in.
\<close>

definition relogin_and_retry ::
  "deps \<Rightarrow> (client \<Rightarrow> (exn + 'a) \<times> client) \<Rightarrow> 'a \<Rightarrow> string \<Rightarrow> client \<Rightarrow> (exn + 'a) \<times> client" where
  "relogin_and_retry d operation absent msg c =
     handle
       (scope_exit
          (case async_login d c of
             (Inl e, c') \<Rightarrow> (Inl e, c')
           | (Inr True, c') \<Rightarrow> operation c'
           | (Inr False, c') \<Rightarrow> (Inr absent, c')))
       (bind (logger Error msg) (\<lambda>_. ret absent))"






section \<open>The combinators preserve a relation\<close>

lemma snd_scope_exit [simp]: "snd (scope_exit r) = snd r"
  by (cases r rule: scope_exit.cases) auto

lemma preservesD: "preserves R m \<Longrightarrow> m c = (r, c') \<Longrightarrow> R c c'"
  unfolding preserves_def by (metis snd_conv)

lemma preserves_ret: "reflp R \<Longrightarrow> preserves R (ret x)"
  by (simp add: preserves_def ret_def reflpD)

lemma preserves_lift: "reflp R \<Longrightarrow> preserves R (lift r)"
  by (simp add: preserves_def lift_def reflpD)

lemma preserves_bind:
  assumes "transp R" "preserves R m" "\<And>x. preserves R (f x)"
  shows "preserves R (bind m f)"
  unfolding preserves_def
proof
  fix c
  obtain r c' where m: "m c = (r, c')" by (cases "m c")
  have 1: "R c c'" using assms(2) m by (rule preservesD)
  show "R c (snd (bind m f c))"
  proof (cases r)
    case (Inl e)
    then show ?thesis using 1 m by (simp add: bind_def)
  next
    case (Inr x)
    have "R c' (snd (f x c'))" using assms(3)[of x] by (simp add: preserves_def)
    then show ?thesis using 1 m Inr assms(1) by (auto simp: bind_def dest: transpD)
  qed
qed


lemma preserves_timeout_scope: "preserves R m \<Longrightarrow> preserves R (timeout_scope m)"
  by (simp add: preserves_def timeout_scope_def)

lemma preserves_handle:
  assumes "transp R" "R c (snd r)" "preserves R h"
  shows "R c (snd (handle r h))"
proof (cases r)
  case (Pair x c')
  show ?thesis
  proof (cases x)
    case (Inl e)
    have "R c' (snd (h c'))" using assms(3) by (simp add: preserves_def)
    then show ?thesis using Pair Inl assms(1,2) by (auto simp: handle_def dest: transpD)
  next
    case (Inr y)
    then show ?thesis using Pair assms(2) by (simp add: handle_def)
  qed
qed

lemma preserves_try_except:
  "transp R \<Longrightarrow> preserves R m \<Longrightarrow> preserves R h \<Longrightarrow> preserves R (try_except m h)"
  unfolding try_except_def
  by (simp add: preserves_def preserves_handle)

lemma preserves_self: "(\<And>c0. preserves R (m c0)) \<Longrightarrow> preserves R (with_client m)"
  by (simp add: preserves_def with_client_def)

lemma preserves_if:
  "preserves R m1 \<Longrightarrow> preserves R m2 \<Longrightarrow> preserves R (if b then m1 else m2)"
  by simp

lemma preserves_case_option:
  "preserves R m1 \<Longrightarrow> (\<And>x. preserves R (m2 x)) \<Longrightarrow>
   preserves R (case v of None \<Rightarrow> m1 | Some x \<Rightarrow> m2 x)"
  by (cases v) auto

lemma preserves_case_flow:
  "(\<And>x. preserves R (m1 x)) \<Longrightarrow> (\<And>x. preserves R (m2 x)) \<Longrightarrow>
   preserves R (case v of Return x \<Rightarrow> m1 x | Continue x \<Rightarrow> m2 x)"
  by (cases v) auto

lemmas preserves_intros = preserves_ret preserves_lift preserves_bind preserves_timeout_scope
  preserves_try_except preserves_if preserves_case_option preserves_case_flow

lemma consumes_refl: "reflp consumes" by (simp add: reflp_def consumes_def)
lemma consumes_trans: "transp consumes" by (auto simp: transp_def consumes_def)
lemma consumes_logger: "preserves consumes (logger l m)"
  by (simp add: preserves_def logger_def consumes_def)
lemma consumes_request: "preserves consumes (session_request r)"
  by (simp add: preserves_def session_request_def consumes_def Let_def suffix_ConsI
      split: list.splits outcome.splits)
lemma consumes_store: "preserves consumes (store_token m r)"
  unfolding store_token_def
  by (intro preserves_intros consumes_refl consumes_trans consumes_logger)
     (simp add: preserves_def consumes_def)

lemmas consumes_prims = consumes_refl consumes_trans consumes_logger consumes_request consumes_store

lemma consumes_fallback: "preserves consumes async_login_fallback"
  unfolding async_login_fallback_def
  by (rule preserves_self) (intro preserves_intros consumes_prims)

lemma consumes_login: "preserves consumes (async_login d)"
  unfolding async_login_def
  by (rule preserves_self) (intro preserves_intros consumes_prims consumes_fallback)

lemma consumes_ensure_token: "preserves consumes (ensure_token d)"
  using consumes_login[of d] consumes_refl
  by (simp add: ensure_token_def preserves_def reflpD)

lemma consumes_report_status: "preserves consumes (report_status msg r)"
  unfolding report_status_def
  by (intro preserves_intros consumes_prims)

lemma consumes_length:
  "preserves consumes m \<Longrightarrow> (r, c') = m c \<Longrightarrow> length (pending c') \<le> length (pending c)"
  using preservesD[of consumes m c r c'] by (simp add: consumes_def suffix_length_le)

lemma request_Inr:
  "session_request r c = (Inr resp, c') \<Longrightarrow> pending c = Response resp # pending c'"
  by (auto simp: session_request_def Let_def split: list.splits outcome.splits)

lemma retry_shorter:
  assumes "(x, y) = ensure_token d c" "(Inr resp, ya) = session_request r y"
    "(xb, yb) = report_status msg resp ya" "(xc, yc) = async_login d yb"
  shows "length (pending yc) < length (pending c)"
proof -
  have "length (pending y) \<le> length (pending c)"
    using assms(1) consumes_ensure_token by (rule consumes_length[rotated])
  moreover have "length (pending ya) < length (pending y)"
    using request_Inr[OF assms(2)[symmetric]] by simp
  moreover have "length (pending yb) \<le> length (pending ya)"
    using assms(3) consumes_report_status by (rule consumes_length[rotated])
  moreover have "length (pending yc) \<le> length (pending yb)"
    using assms(4) consumes_login by (rule consumes_length[rotated])
  ultimately show ?thesis by simp
qed

section \<open>Termination: every retry has consumed a response\<close>

termination async_get_device_list
  by (relation "measure (\<lambda>(d, c). length (pending c))") (auto intro: retry_shorter)

termination async_get_battery_data
  by (relation "measure (\<lambda>(d, s, c). length (pending c))") (auto intro: retry_shorter)

declare async_get_device_list.simps [simp del]

declare async_get_battery_data.simps [simp del]

section \<open>Relations along the retries\<close>

text \<open>
  A relation that login, logging and the later requests preserve, and that the data
  request preserves up to one step, holds between the states before and after the whole
  operation, however often it retries.
\<close>

lemma preserves_ensure_token:
  "reflp R \<Longrightarrow> preserves R (async_login d) \<Longrightarrow> preserves R (ensure_token d)"
  by (simp add: ensure_token_def preserves_def reflpD)

lemma preserves_report_status:
  "reflp R \<Longrightarrow> transp R \<Longrightarrow> (\<And>l m. preserves R (logger l m)) \<Longrightarrow>
   preserves R (report_status msg r)"
  unfolding report_status_def by (intro preserves_intros)

lemma preserves_device_list_body:
  "reflp R \<Longrightarrow> transp R \<Longrightarrow> (\<And>l m. preserves R (logger l m)) \<Longrightarrow>
   preserves R (device_list_body r)"
  unfolding device_list_body_def by (intro preserves_intros)

lemma preserves_power_body:
  "reflp R \<Longrightarrow> transp R \<Longrightarrow> (\<And>l m. preserves R (logger l m)) \<Longrightarrow>
   preserves R (power_body r)"
  unfolding power_body_def by (intro preserves_intros)

lemma handle_scope_step:
  assumes "\<And>a b c. P a b \<Longrightarrow> R b c \<Longrightarrow> P a c" "P a (snd r)" "preserves R h"
  shows "P a (snd (handle (scope_exit r) h))"
proof (cases r)
  case (Pair x c')
  have "R c' (snd (h c'))" using assms(3) by (simp add: preserves_def)
  with assms(1,2) Pair show ?thesis
    by (cases x) (auto simp: handle_def)
qed

lemma device_list_relational:
  fixes R P :: "client \<Rightarrow> client \<Rightarrow> bool"
  assumes R: "reflp R" "transp R"
    and RP: "\<And>a b. R a b \<Longrightarrow> P a b"
    and RPc: "\<And>a b c. R a b \<Longrightarrow> P b c \<Longrightarrow> P a c"
    and PRc: "\<And>a b c. P a b \<Longrightarrow> R b c \<Longrightarrow> P a c"
    and login: "preserves R (async_login d)"
    and logger: "\<And>l m. preserves R (logger l m)"
    and req: "\<And>c r c1. session_request (Get (base_url c) devices_path [] (token c)) c = (r, c1)
                \<Longrightarrow> P c c1"
    and req401: "\<And>c resp c1.
        session_request (Get (base_url c) devices_path [] (token c)) c = (Inr resp, c1) \<Longrightarrow>
        status resp = 401 \<Longrightarrow> R c c1"
  shows "P c (snd (async_get_device_list d c))"
  using login
proof (induction d c rule: async_get_device_list.induct)
  case (1 d c)
  note login = "1.prems"
  let ?h = "bind (logger Error ''Error fetching device list: %s'') (\<lambda>_. ret JNull)"
  have h: "preserves R ?h" by (intro preserves_intros R logger)
  obtain r0 c1 where e: "ensure_token d c = (r0, c1)" by (cases "ensure_token d c")
  have Rc: "R c c1" using preservesD[OF preserves_ensure_token[OF R(1) login] e] .
  show ?case
  proof (cases "r0 = Inr True")
    case False
    then have "snd (async_get_device_list d c) = c1"
      using e by (subst async_get_device_list.simps) (auto split: sum.splits bool.splits)
    then show ?thesis using Rc RP by simp
  next
    case True
    obtain r2 c2 where q: "session_request (Get (base_url c1) devices_path [] (token c1)) c1 = (r2, c2)"
      by (cases "session_request (Get (base_url c1) devices_path [] (token c1)) c1")
    define X where "X =
       (case (r2, c2) of
          (Inl e, c2) \<Rightarrow> (Inl e, c2)
        | (Inr response, c2) \<Rightarrow>
            if status response \<noteq> 200 then
              (case report_status ''Failed to get device list with status %s: %s'' response c2 of
                 (Inl e, c3) \<Rightarrow> (Inl e, c3)
               | (Inr _, c3) \<Rightarrow>
                   if status response = 401 then
                     (case async_login d c3 of
                        (Inl e, c4) \<Rightarrow> (Inl e, c4)
                      | (Inr True, c4) \<Rightarrow> async_get_device_list d c4
                      | (Inr False, c4) \<Rightarrow> (Inr JNull, c4))
                   else (Inr JNull, c3))
            else device_list_body response c2)"
    have res: "async_get_device_list d c = handle (scope_exit X) ?h"
      using e True q by (subst async_get_device_list.simps) (simp add: X_def)
    have P12: "P c1 c2" using req[OF q] .
    have "P c1 (snd X)"
    proof (cases r2)
      case (Inl e)
      then show ?thesis using P12 by (simp add: X_def)
    next
      case (Inr resp)
      show ?thesis
      proof (cases "status resp = 200")
        case s: True
        have "R c2 (snd (device_list_body resp c2))"
          using preserves_device_list_body[OF R logger] by (simp add: preserves_def)
        then show ?thesis using Inr s PRc[OF P12] by (simp add: X_def)
      next
        case s: False
        obtain r3 c3 where rs: "report_status ''Failed to get device list with status %s: %s''
            resp c2 = (r3, c3)" by (cases "report_status ''Failed to get device list with status %s: %s''
            resp c2")
        have R23: "R c2 c3" using preservesD[OF preserves_report_status[OF R logger] rs] .
        have P13: "P c1 c3" using PRc[OF P12 R23] .
        show ?thesis
        proof (cases "\<exists>u. r3 = Inr u \<and> status resp = 401")
          case False
          then have "snd X = c3" using Inr s rs by (auto simp: X_def split: sum.splits)
          then show ?thesis using P13 by simp
        next
          case t: True
          then obtain u where u: "r3 = Inr u" and s401: "status resp = 401" by blast
          have R12: "R c1 c2" using req401 q Inr s401 by simp
          obtain r4 c4 where l: "async_login d c3 = (r4, c4)" by (cases "async_login d c3")
          have R34: "R c3 c4" using preservesD[OF login l] .
          have R14: "R c1 c4" using R12 R23 R34 R(2) by (meson transpD)
          show ?thesis
          proof (cases "r4 = Inr True")
            case False
            then have "snd X = c4" using Inr s rs u s401 l
              by (auto simp: X_def split: sum.splits bool.splits)
            then show ?thesis using R14 RP by simp
          next
            case r4: True
            have "P c4 (snd (async_get_device_list d c4))"
              using "1.IH"[OF e[symmetric] True refl q[symmetric] Inr _ rs[symmetric] u s401
                  l[symmetric] r4 refl login] s by simp
            then have "P c1 (snd (async_get_device_list d c4))" using RPc[OF R14] by simp
            then show ?thesis using Inr s rs u s401 l r4 by (simp add: X_def)
          qed
        qed
      qed
    qed
    from handle_scope_step[of P R, OF PRc this h] have "P c1 (snd (async_get_device_list d c))"
      by (simp add: res)
    then show ?thesis using RPc[OF Rc] by simp
  qed
qed

lemma snd_returned [simp]: "snd (returned r) = snd r"
  by (cases r rule: returned.cases) auto

lemma handle_step:
  assumes "\<And>a b c. P a b \<Longrightarrow> R b c \<Longrightarrow> P a c" "P a (snd r)" "preserves R h"
  shows "P a (snd (handle r h))"
proof (cases r)
  case (Pair x c')
  have "R c' (snd (h c'))" using assms(3) by (simp add: preserves_def)
  with assms(1,2) Pair show ?thesis
    by (cases x) (auto simp: handle_def)
qed

lemma battery_data_relational:
  fixes R P :: "client \<Rightarrow> client \<Rightarrow> bool"
  assumes R: "reflp R" "transp R"
    and RP: "\<And>a b. R a b \<Longrightarrow> P a b"
    and RPc: "\<And>a b c. R a b \<Longrightarrow> P b c \<Longrightarrow> P a c"
    and PRc: "\<And>a b c. P a b \<Longrightarrow> R b c \<Longrightarrow> P a c"
    and login: "preserves R (async_login d)"
    and logger: "\<And>l m. preserves R (logger l m)"
    and later: "\<And>st h bd. preserves R (stats_and_today d st h bd)"
    and req: "\<And>c q r c1. session_request (Get (base_url c) power_path q (token c)) c = (r, c1)
                \<Longrightarrow> P c c1"
    and req401: "\<And>c q resp c1.
        session_request (Get (base_url c) power_path q (token c)) c = (Inr resp, c1) \<Longrightarrow>
        status resp = 401 \<Longrightarrow> R c c1"
  shows "P c (snd (async_get_battery_data d station_id c))"
  using login later
proof (induction d station_id c rule: async_get_battery_data.induct)
  case (1 d station_id c)
  note login = "1.prems"(1) and later = "1.prems"(2)
  let ?h = "bind (logger Error ''Error fetching battery data: %s'') (\<lambda>_. ret None)"
  let ?st = "case station_id of None \<Rightarrow> [] | Some s \<Rightarrow> s"
  have h: "preserves R ?h" by (intro preserves_intros R logger)
  obtain r0 c1 where e: "ensure_token d c = (r0, c1)" by (cases "ensure_token d c")
  have Rc: "R c c1" using preservesD[OF preserves_ensure_token[OF R(1) login] e] .
  show ?case
  proof (cases "r0 = Inr True")
    case False
    then have "snd (async_get_battery_data d station_id c) = c1"
      using e by (subst async_get_battery_data.simps) (auto split: sum.splits bool.splits)
    then show ?thesis using Rc RP by simp
  next
    case True
    let ?get = "Get (base_url c1) power_path [(''sysSn'', ''All''), (''stationId'', ?st)] (token c1)"
    obtain r2 c2 where q: "session_request ?get c1 = (r2, c2)"
      by (cases "session_request ?get c1")
    define X where "X =
       (case (r2, c2) of
          (Inl e, c2) \<Rightarrow> (Inl e, c2)
        | (Inr response, c2) \<Rightarrow>
            if status response \<noteq> 200 then
              (case report_status ''Failed to get battery power data with status %s: %s''
                      response c2 of
                 (Inl e, c3) \<Rightarrow> (Inl e, c3)
               | (Inr _, c3) \<Rightarrow>
                   if status response = 401 then
                     (case async_login d c3 of
                        (Inl e, c4) \<Rightarrow> (Inl e, c4)
                      | (Inr True, c4) \<Rightarrow> returned (async_get_battery_data d station_id c4)
                      | (Inr False, c4) \<Rightarrow> (Inr (Return None), c4))
                   else (Inr (Return None), c3))
            else power_body response c2)"
    define Y where "Y =
       (case scope_exit X of
          (Inl e, c5) \<Rightarrow> (Inl e, c5)
        | (Inr (Return r), c5) \<Rightarrow> (Inr r, c5)
        | (Inr (Continue battery_data), c5) \<Rightarrow>
            stats_and_today d ?st (token c1) battery_data c5)"
    have res: "async_get_battery_data d station_id c = handle Y ?h"
      using e True q by (subst async_get_battery_data.simps) (simp add: X_def Y_def Let_def)
    have P12: "P c1 c2" using req[OF q] .
    have PX: "P c1 (snd X)"
    proof (cases r2)
      case (Inl e)
      then show ?thesis using P12 by (simp add: X_def)
    next
      case (Inr resp)
      show ?thesis
      proof (cases "status resp = 200")
        case s: True
        have "R c2 (snd (power_body resp c2))"
          using preserves_power_body[OF R logger] by (simp add: preserves_def)
        then show ?thesis using Inr s PRc[OF P12] by (simp add: X_def)
      next
        case s: False
        let ?msg = "''Failed to get battery power data with status %s: %s''"
        obtain r3 c3 where rs: "report_status ?msg resp c2 = (r3, c3)"
          by (cases "report_status ?msg resp c2")
        have R23: "R c2 c3" using preservesD[OF preserves_report_status[OF R logger] rs] .
        have P13: "P c1 c3" using PRc[OF P12 R23] .
        show ?thesis
        proof (cases "\<exists>u. r3 = Inr u \<and> status resp = 401")
          case False
          then have "snd X = c3" using Inr s rs by (auto simp: X_def split: sum.splits)
          then show ?thesis using P13 by simp
        next
          case t: True
          then obtain u where u: "r3 = Inr u" and s401: "status resp = 401" by blast
          have R12: "R c1 c2" using req401 q Inr s401 by simp
          obtain r4 c4 where l: "async_login d c3 = (r4, c4)" by (cases "async_login d c3")
          have R34: "R c3 c4" using preservesD[OF login l] .
          have R14: "R c1 c4" using R12 R23 R34 R(2) by (meson transpD)
          show ?thesis
          proof (cases "r4 = Inr True")
            case False
            then have "snd X = c4" using Inr s rs u s401 l
              by (auto simp: X_def split: sum.splits bool.splits)
            then show ?thesis using R14 RP by simp
          next
            case r4: True
            have "P c4 (snd (async_get_battery_data d station_id c4))"
              using "1.IH"[OF e[symmetric] True refl refl refl q[symmetric] Inr _ rs[symmetric] u
                  s401 l[symmetric] r4 refl login later] s by simp
            then have "P c1 (snd (async_get_battery_data d station_id c4))"
              using RPc[OF R14] by simp
            then show ?thesis using Inr s rs u s401 l r4 by (simp add: X_def)
          qed
        qed
      qed
    qed
    have PY: "P c1 (snd Y)"
    proof (cases "scope_exit X")
      case (Pair x c5)
      then have c5: "c5 = snd X" by (metis snd_conv snd_scope_exit)
      show ?thesis
      proof (cases "\<exists>bd. x = Inr (Continue bd)")
        case False
        then have "snd Y = c5" using Pair by (auto simp: Y_def split: sum.splits flow.splits)
        then show ?thesis using PX c5 by simp
      next
        case True
        then obtain bd where "x = Inr (Continue bd)" by blast
        then have "Y = stats_and_today d ?st (token c1) bd c5" using Pair by (simp add: Y_def)
        moreover have "R c5 (snd (stats_and_today d ?st (token c1) bd c5))"
          using later by (simp add: preserves_def)
        ultimately show ?thesis using PRc PX c5 by auto
      qed
    qed
    from handle_step[of P R, OF PRc PY h] have "P c1 (snd (async_get_battery_data d station_id c))"
      by (simp add: res)
    then show ?thesis using RPc[OF Rc] by simp
  qed
qed

section \<open>Evaluating the client on given responses\<close>

lemmas prog_defs = with_client_def bind_def ret_def lift_def logger_def session_request_def timeout_scope_def
  try_except_def handle_def store_token_def caught_def ebind_def

lemmas demo_defs = demo_client_def init_def ok_response_def status_response_def demo_deps_def
  DEFAULT_TIMEOUT_def DEFAULT_BASE_URL_def login_path_def

lemmas eval_defs = prog_defs demo_defs code_is_error_def py_get_def extract_token_def
  ensure_token_def report_status_def device_list_body_def devices_path_def Let_def
  async_login_def async_login_fallback_def power_body_def merge_power_def power_path_def
  stats_and_today_def fetch_energy_statistics_def fetch_today_stats_def try_request_def
  stats_code_ok_def today_code_ok_def map_stats_def map_today_def set_if_present_def
  stats_fields_def today_energy_fields_def data_requests_def login_posts_def fallback_posts_def

lemma code_is_error_dict:
  "code_is_error (JDict kvs) =
     Inr (\<not> (py_eq_int (vendor_code kvs) 0 \<or> py_eq_int (vendor_code kvs) 200))"
  by (simp add: code_is_error_def py_get_def ebind_def vendor_code_def)

lemma extract_token_checkable:
  "data_checkable kvs \<Longrightarrow> extract_token (JDict kvs) = Inr (spec_token kvs)"
  by (auto simp: extract_token_def spec_token_def data_checkable_def ebind_def
      split: option.splits json.splits)

lemma login_on_success_response:
  assumes "pending c = Response r # rest" "status r = 200" "json_result r = Inr (JDict kvs)"
    "py_eq_int (vendor_code kvs) 0 \<or> py_eq_int (vendor_code kvs) 200"
  shows "async_login d c =
     handle (scope_exit (store_token ''No token found in login response'' (JDict kvs)
       (c\<lparr>events := events c @ [Sent (Post (base_url c) login_path
           (JsonBody [(''username'', username c),
                      (''password'', encrypt_password d (password c) (username c))])) DEFAULT_TIMEOUT],
          pending := rest\<rparr>)))
       (bind (logger Error ''Error connecting to Neovolt API: %s'') (\<lambda>_. async_login_fallback))"
  using assms
  by (simp add: async_login_def with_client_def bind_def lift_def session_request_def timeout_scope_def
      try_except_def code_is_error_dict Let_def)

lemma fallback_on_success_response:
  assumes "pending c = Response r # rest" "status r = 200" "json_result r = Inr (JDict kvs)"
    "py_eq_int (vendor_code kvs) 0 \<or> py_eq_int (vendor_code kvs) 200"
  shows "async_login_fallback c =
     handle (scope_exit (store_token ''No token found in fallback login response'' (JDict kvs)
       (c\<lparr>events := events c @ [Sent (Post (base_url c) login_path
           (FormBody [(''username'', username c), (''password'', password c)])) DEFAULT_TIMEOUT],
          pending := rest\<rparr>)))
       (bind (logger Error ''Error connecting to Neovolt API with fallback method: %s'')
          (\<lambda>_. ret False))"
  using assms
  by (simp add: async_login_fallback_def with_client_def bind_def lift_def session_request_def timeout_scope_def
      try_except_def code_is_error_dict Let_def)

lemma store_token_checkable:
  "data_checkable kvs \<Longrightarrow>
   handle (scope_exit (store_token msg (JDict kvs) c)) h =
     (case spec_token kvs of
        Some t \<Rightarrow> (Inr True, c\<lparr>token := t\<rparr>)
      | None \<Rightarrow> (Inr False, c\<lparr>events := events c @ [Logged Error msg]\<rparr>))"
  by (simp add: store_token_def extract_token_checkable bind_def lift_def logger_def ret_def
      handle_def split: option.splits)

section \<open>The token is written only by a login that succeeds\<close>

lemma same_token_refl: "reflp same_token" by (simp add: reflp_def same_token_def)
lemma same_token_trans: "transp same_token" by (auto simp: transp_def same_token_def)
lemma same_token_logger: "preserves same_token (logger l m)"
  by (simp add: preserves_def logger_def same_token_def)
lemma same_token_request: "preserves same_token (session_request r)"
  by (simp add: preserves_def session_request_def same_token_def Let_def
      split: list.splits outcome.splits)

lemmas same_token_prims = same_token_refl same_token_trans same_token_logger same_token_request

lemma unless_true_ret: "unless_true (ret x)"
  by (simp add: unless_true_def ret_def)

lemma unless_true_bind:
  assumes "preserves same_token m" "\<And>x. unless_true (f x)"
  shows "unless_true (bind m f)"
  unfolding unless_true_def
proof
  fix c
  obtain r c' where m: "m c = (r, c')" by (cases "m c")
  have 1: "token c' = token c" using preservesD[OF assms(1) m] by (simp add: same_token_def)
  show "token (snd (bind m f c)) = token c \<or> fst (bind m f c) = Inr True"
  proof (cases r)
    case (Inl e)
    then show ?thesis using 1 m by (simp add: bind_def)
  next
    case (Inr x)
    have "token (snd (f x c')) = token c' \<or> fst (f x c') = Inr True"
      using assms(2)[of x] by (simp add: unless_true_def)
    then show ?thesis using Inr 1 m by (auto simp: bind_def)
  qed
qed

lemma fst_scope_exit_Inr [simp]: "fst (scope_exit r) = Inr x \<longleftrightarrow> fst r = Inr x"
  by (cases r rule: scope_exit.cases) auto

lemma unless_true_timeout_scope: "unless_true m \<Longrightarrow> unless_true (timeout_scope m)"
  by (simp add: unless_true_def timeout_scope_def)

lemma unless_true_try_except:
  assumes "unless_true m" "unless_true h"
  shows "unless_true (try_except m h)"
  unfolding unless_true_def
proof
  fix c
  obtain r c' where m: "m c = (r, c')" by (cases "m c")
  have 1: "token c' = token c \<or> r = Inr True"
    using assms(1) m by (auto simp: unless_true_def dest: spec[where x=c])
  have 2: "token (snd (h c')) = token c' \<or> fst (h c') = Inr True"
    using assms(2) by (simp add: unless_true_def)
  show "token (snd (try_except m h c)) = token c \<or> fst (try_except m h c) = Inr True"
    using 1 2 m by (cases r) (auto simp: try_except_def handle_def)
qed

lemma unless_true_if: "unless_true m1 \<Longrightarrow> unless_true m2 \<Longrightarrow> unless_true (if b then m1 else m2)"
  by simp

lemma unless_true_self: "(\<And>c0. unless_true (m c0)) \<Longrightarrow> unless_true (with_client m)"
  by (simp add: unless_true_def with_client_def)

lemma unless_true_store: "unless_true (store_token msg result)"
  by (auto simp: unless_true_def store_token_def bind_def lift_def logger_def ret_def
      split: sum.splits option.splits)

lemmas unless_true_intros = unless_true_ret unless_true_bind unless_true_timeout_scope
  unless_true_try_except unless_true_if unless_true_store

lemma unless_true_fallback: "unless_true async_login_fallback"
  unfolding async_login_fallback_def
  by (rule unless_true_self)
     (intro unless_true_intros preserves_lift preserves_ret same_token_prims)

lemma unless_true_login: "unless_true (async_login d)"
  unfolding async_login_def
  by (rule unless_true_self)
     (intro unless_true_intros unless_true_fallback preserves_lift preserves_ret same_token_prims)

section \<open>The events a run adds\<close>























lemma events_scope_exit [simp]: "events (snd (scope_exit r)) = events (snd r)"
  by simp







section \<open>The mapping of the today's summary\<close>





section \<open>Data requests and 401 responses\<close>

lemma within_budget_refl: "reflp (within_budget p)" by (simp add: reflp_def within_budget_def)
lemma within_budget_trans: "transp (within_budget p)"
  by (auto simp: transp_def within_budget_def)
lemma within_budget_logger: "preserves (within_budget p) (logger l m)"
  by (simp add: preserves_def logger_def within_budget_def budget_def data_requests_def)
lemma within_budget_request:
  "\<not> is_data_request p (Sent r DEFAULT_TIMEOUT) \<Longrightarrow> preserves (within_budget p) (session_request r)"
  by (auto simp: preserves_def session_request_def within_budget_def budget_def
      data_requests_def unauthorized_def Let_def split: list.splits outcome.splits)
lemma within_budget_store: "preserves (within_budget p) (store_token m r)"
  unfolding store_token_def
  by (intro preserves_intros within_budget_refl within_budget_trans within_budget_logger)
     (simp add: preserves_def within_budget_def budget_def)

lemmas within_budget_prims = within_budget_refl within_budget_trans within_budget_logger
  within_budget_request within_budget_store

lemma within_budget_fallback: "preserves (within_budget p) async_login_fallback"
  unfolding async_login_fallback_def
  by (rule preserves_self) (intro preserves_intros within_budget_prims; simp)

lemma within_budget_login: "preserves (within_budget p) (async_login d)"
  unfolding async_login_def
  by (rule preserves_self)
     (intro preserves_intros within_budget_prims within_budget_fallback; simp)

lemma within_budget_try_request:
  "\<not> is_data_request p (Sent r DEFAULT_TIMEOUT) \<Longrightarrow>
   preserves (within_budget p) (try_request msg r)"
  unfolding try_request_def by (intro preserves_intros within_budget_prims; simp)

lemma within_budget_fetch_stats:
  "preserves (within_budget power_path) (fetch_energy_statistics d st h bd)"
  unfolding fetch_energy_statistics_def
  by (rule preserves_self)
     (intro preserves_intros within_budget_prims within_budget_try_request;
      simp add: power_path_def)

lemma within_budget_fetch_today:
  "preserves (within_budget power_path) (fetch_today_stats d st h bd)"
  unfolding fetch_today_stats_def
  by (rule preserves_self)
     (intro preserves_intros within_budget_prims within_budget_try_request;
      simp add: power_path_def)

lemma within_budget_stats_and_today:
  "preserves (within_budget power_path) (stats_and_today d st h bd)"
  unfolding stats_and_today_def
  by (intro preserves_intros within_budget_prims within_budget_fetch_stats
      within_budget_fetch_today)

lemma one_more_request:
  "session_request r c = (x, c1) \<Longrightarrow> one_more p c c1"
  by (auto simp: session_request_def one_more_def budget_def data_requests_def unauthorized_def
      Let_def split: list.splits outcome.splits)

lemma within_budget_request_401:
  "session_request r c = (Inr resp, c1) \<Longrightarrow> status resp = 401 \<Longrightarrow> within_budget p c c1"
  by (auto simp: session_request_def within_budget_def budget_def data_requests_def
      unauthorized_def Let_def split: list.splits outcome.splits)

lemma device_list_budget: "one_more devices_path c (snd (async_get_device_list d c))"
proof (rule device_list_relational[where R = "within_budget devices_path"])
  show "within_budget devices_path a b \<Longrightarrow> one_more devices_path a b" for a b
    by (simp add: within_budget_def one_more_def)
  show "within_budget devices_path a b \<Longrightarrow> one_more devices_path b c \<Longrightarrow>
      one_more devices_path a c" for a b c
    by (simp add: within_budget_def one_more_def)
  show "one_more devices_path a b \<Longrightarrow> within_budget devices_path b c \<Longrightarrow>
      one_more devices_path a c" for a b c
    by (simp add: within_budget_def one_more_def)
qed (auto intro: within_budget_prims within_budget_login one_more_request
        within_budget_request_401)

lemma battery_data_budget: "one_more power_path c (snd (async_get_battery_data d sid c))"
proof (rule battery_data_relational[where R = "within_budget power_path"])
  show "within_budget power_path a b \<Longrightarrow> one_more power_path a b" for a b
    by (simp add: within_budget_def one_more_def)
  show "within_budget power_path a b \<Longrightarrow> one_more power_path b c \<Longrightarrow>
      one_more power_path a c" for a b c
    by (simp add: within_budget_def one_more_def)
  show "one_more power_path a b \<Longrightarrow> within_budget power_path b c \<Longrightarrow>
      one_more power_path a c" for a b c
    by (simp add: within_budget_def one_more_def)
qed (auto intro: within_budget_prims within_budget_login one_more_request
        within_budget_request_401 within_budget_stats_and_today)

lemma device_list_on_401:
  assumes "py_truthy (token c)" "pending c = Response r # rest" "status r = 401"
    "text_result r = Inr s"
  shows "async_get_device_list d c =
     relogin_and_retry d (async_get_device_list d) JNull ''Error fetching device list: %s''
       (c\<lparr>pending := rest,
          events := events c @
            [Sent (Get (base_url c) devices_path [] (token c)) DEFAULT_TIMEOUT,
             Logged Error ''Failed to get device list with status %s: %s'']\<rparr>)"
  using assms
  by (subst async_get_device_list.simps)
     (simp add: ensure_token_def session_request_def Let_def report_status_def bind_def
       lift_def logger_def relogin_and_retry_def)

lemma scope_exit_returned:
  "(case scope_exit (case x of (Inl e, c') \<Rightarrow> (Inl e, c')
         | (Inr True, c') \<Rightarrow> returned (f c')
         | (Inr False, c') \<Rightarrow> (Inr (Return None), c')) of
      (Inl e, c5) \<Rightarrow> (Inl e, c5)
    | (Inr (Return r), c5) \<Rightarrow> (Inr r, c5)
    | (Inr (Continue bd), c5) \<Rightarrow> g bd c5) =
   scope_exit (case x of (Inl e, c') \<Rightarrow> (Inl e, c')
         | (Inr True, c') \<Rightarrow> f c'
         | (Inr False, c') \<Rightarrow> (Inr None, c'))"
proof (cases x)
  case (Pair a c')
  show ?thesis
  proof (cases a)
    case (Inl e)
    then show ?thesis using Pair by simp
  next
    case (Inr b)
    then show ?thesis using Pair
      by (cases b; cases "f c'" rule: returned.cases) auto
  qed
qed

lemma battery_data_on_401:
  assumes "py_truthy (token c)" "pending c = Response r # rest" "status r = 401"
    "text_result r = Inr s"
  shows "async_get_battery_data d station_id c =
     relogin_and_retry d (async_get_battery_data d station_id) None
       ''Error fetching battery data: %s''
       (c\<lparr>pending := rest,
          events := events c @
            [Sent (Get (base_url c) power_path
                [(''sysSn'', ''All''),
                 (''stationId'', case station_id of None \<Rightarrow> [] | Some s \<Rightarrow> s)] (token c))
               DEFAULT_TIMEOUT,
             Logged Error ''Failed to get battery power data with status %s: %s'']\<rparr>)"
  using assms
  by (subst async_get_battery_data.simps)
     (simp add: ensure_token_def session_request_def Let_def report_status_def bind_def
       lift_def logger_def relogin_and_retry_def scope_exit_returned)

section \<open>Where a token comes from\<close>

















section \<open>What can be raised on a benign session\<close>


















































lemma fst_returned_Inl [simp]: "fst (returned r) = Inl e \<longleftrightarrow> fst r = Inl e"
  by (cases r rule: returned.cases) auto


section \<open>Claim C1: what a 401 leads to\<close>

text \<open>
  Claim C1.  When the data request of \<^verbatim>\<open>getDeviceList\<close> or \<^verbatim>\<open>getBatteryData\<close> is
  answered with status 401 (and the body of the answer can be read), the client logs the
  status and performs one re-login and one retry: it logs in again, returns the absent
  result when that login returns false, and otherwise runs the whole operation again and
  returns what that run returns.  The retry is the operation itself, so a 401 on the
  retried request leads to a further re-login and a further retry.  The recursion is
  bounded by the 401 responses of the vendor: on every sequence of responses the operation
  sends at most one data request more than there are 401 responses in the sequence.
\<close>

theorem retry_on_each_401:
  "data_requests devices_path (events (snd (async_get_device_list d c)))
     \<le> data_requests devices_path (events c) + unauthorized (pending c) + 1 \<and>
   data_requests power_path (events (snd (async_get_battery_data d station_id c)))
     \<le> data_requests power_path (events c) + unauthorized (pending c) + 1 \<and>
   (py_truthy (token c) \<and> pending c = Response r # rest \<and> status r = 401 \<and>
    text_result r = Inr s \<longrightarrow>
      async_get_device_list d c =
        relogin_and_retry d (async_get_device_list d) JNull ''Error fetching device list: %s''
          (c\<lparr>pending := rest,
             events := events c @
               [Sent (Get (base_url c) devices_path [] (token c)) DEFAULT_TIMEOUT,
                Logged Error ''Failed to get device list with status %s: %s'']\<rparr>) \<and>
      async_get_battery_data d station_id c =
        relogin_and_retry d (async_get_battery_data d station_id) None
          ''Error fetching battery data: %s''
          (c\<lparr>pending := rest,
             events := events c @
               [Sent (Get (base_url c) power_path
                   [(''sysSn'', ''All''),
                    (''stationId'', case station_id of None \<Rightarrow> [] | Some s \<Rightarrow> s)] (token c))
                  DEFAULT_TIMEOUT,
                Logged Error ''Failed to get battery power data with status %s: %s'']\<rparr>))"
  using device_list_budget[of c d] battery_data_budget[of c d station_id]
    device_list_on_401[of c r rest s d] battery_data_on_401[of c r rest s d station_id]
  by (simp add: one_more_def budget_def)

theorem retry_on_each_401_witness:
  "data_requests devices_path (events (snd (async_get_device_list demo_deps
      (demo_client (JStr ''old'')
         [Response (status_response 401), Response (status_response 500),
          Response (status_response 500)])))) \<le> 2 \<and>
   fst (async_get_device_list demo_deps
      (demo_client (JStr ''old'')
         [Response (status_response 401), Response (status_response 500),
          Response (status_response 500)])) = Inr JNull"
proof -
  let ?rest = "[Response (status_response 500), Response (status_response 500)]"
  let ?c = "demo_client (JStr ''old'') (Response (status_response 401) # ?rest)"
  let ?c1 = "?c\<lparr>pending := ?rest,
       events := events ?c @
         [Sent (Get (base_url ?c) devices_path [] (token ?c)) DEFAULT_TIMEOUT,
          Logged Error ''Failed to get device list with status %s: %s'']\<rparr>"
  note T = retry_on_each_401[of demo_deps ?c None "status_response 401" ?rest "[]"]
  have h: "py_truthy (token ?c) \<and> pending ?c = Response (status_response 401) # ?rest \<and>
      status (status_response 401) = 401 \<and> text_result (status_response 401) = Inr []"
    by (simp add: demo_client_def init_def status_response_def)
  have u: "unauthorized (pending ?c) = 1" "data_requests devices_path (events ?c) = 0"
    by (simp_all add: demo_client_def init_def status_response_def unauthorized_def
        data_requests_def)
  from T have "data_requests devices_path (events (snd (async_get_device_list demo_deps ?c)))
      \<le> data_requests devices_path (events ?c) + unauthorized (pending ?c) + 1"
    by blast
  then have A: "data_requests devices_path (events (snd (async_get_device_list demo_deps ?c))) \<le> 2"
    by (simp only: u)
  from T h have B: "async_get_device_list demo_deps ?c =
      relogin_and_retry demo_deps (async_get_device_list demo_deps) JNull
        ''Error fetching device list: %s'' ?c1"
    by blast
  have "fst (relogin_and_retry demo_deps (async_get_device_list demo_deps) JNull
        ''Error fetching device list: %s'' ?c1) = Inr JNull"
    by (simp add: relogin_and_retry_def eval_defs)
  with B have "fst (async_get_device_list demo_deps ?c) = Inr JNull" by (simp only:)
  with A show ?thesis by blast
qed

text \<open>
  The retry is not limited to one, as the claim has it.  Below, the retried request is
  answered with a second 401: the call does not return the absent result but logs in a
  second time, sends a third request and returns the devices.
\<close>

theorem second_401_is_retried:
  "fst (async_get_device_list demo_deps (demo_client (JStr ''expired'')
     [Response (status_response 401),
      Response (ok_response (JDict [(''code'', JInt 200), (''token'', JStr ''t1'')])),
      Response (status_response 401),
      Response (ok_response (JDict [(''code'', JInt 200), (''token'', JStr ''t2'')])),
      Response (ok_response (JDict [(''code'', JInt 200), (''data'', JList [JStr ''AL2002''])]))]))
    = Inr (JList [JStr ''AL2002'']) \<and>
   data_requests devices_path (events (snd (async_get_device_list demo_deps
     (demo_client (JStr ''expired'')
     [Response (status_response 401),
      Response (ok_response (JDict [(''code'', JInt 200), (''token'', JStr ''t1'')])),
      Response (status_response 401),
      Response (ok_response (JDict [(''code'', JInt 200), (''token'', JStr ''t2'')])),
      Response (ok_response (JDict [(''code'', JInt 200), (''data'', JList [JStr ''AL2002''])]))]))))
    = 3 \<and>
   login_posts (events (snd (async_get_device_list demo_deps
     (demo_client (JStr ''expired'')
     [Response (status_response 401),
      Response (ok_response (JDict [(''code'', JInt 200), (''token'', JStr ''t1'')])),
      Response (status_response 401),
      Response (ok_response (JDict [(''code'', JInt 200), (''token'', JStr ''t2'')])),
      Response (ok_response (JDict [(''code'', JInt 200), (''data'', JList [JStr ''AL2002''])]))]))))
    = 2"
proof -
  have "\<exists>c'. async_get_device_list demo_deps (demo_client (JStr ''expired'')
     [Response (status_response 401),
      Response (ok_response (JDict [(''code'', JInt 200), (''token'', JStr ''t1'')])),
      Response (status_response 401),
      Response (ok_response (JDict [(''code'', JInt 200), (''token'', JStr ''t2'')])),
      Response (ok_response (JDict [(''code'', JInt 200), (''data'', JList [JStr ''AL2002''])]))])
      = (Inr (JList [JStr ''AL2002'']), c') \<and>
      data_requests devices_path (events c') = 3 \<and> login_posts (events c') = 2"
    by (subst async_get_device_list.simps, simp add: eval_defs,
        subst async_get_device_list.simps, simp add: eval_defs,
        subst async_get_device_list.simps, simp add: eval_defs)
  then show ?thesis by auto
qed

section \<open>Claim C2: failures of the second and third request\<close>

text \<open>
  Claim C2.  Once the power data has been received, a failure of the statistics or of the
  today's-summary request shall not abort the call: the data gathered so far is returned.
  The client does that for an exception raised by the request itself, for a status other
  than 200 and for a vendor error code.  Its inner \<^verbatim>\<open>try\<close> covers the request alone,
  though: a timeout of the block around it becomes \<^verbatim>\<open>TimeoutError\<close> only where the block
  is left, and the body is parsed after the inner \<^verbatim>\<open>try\<close>.  So in the three runs below
  the power data (\<^verbatim>\<open>soc\<close>) has arrived and is lost: when the statistics request times out
  the call returns nothing, when its body is not served as JSON the call returns nothing,
  and when its body does not parse the call raises.  The fourth run is the failure the
  client does survive.
\<close>

theorem statistics_failure_loses_power_data:
  "fst (async_get_battery_data demo_deps None (demo_client (JStr ''t'')
          [Response (ok_response
             (JDict [(''code'', JInt 200), (''data'', JDict [(''soc'', JInt 80)])])),
           Raises (CancelledError 0)])) = Inr None \<and>
   fst (async_get_battery_data demo_deps None (demo_client (JStr ''t'')
          [Response (ok_response
             (JDict [(''code'', JInt 200), (''data'', JDict [(''soc'', JInt 80)])])),
           Response \<lparr>status = 200, text_result = Inr [], json_result = Inl ClientError\<rparr>]))
     = Inr None \<and>
   fst (async_get_battery_data demo_deps None (demo_client (JStr ''t'')
          [Response (ok_response
             (JDict [(''code'', JInt 200), (''data'', JDict [(''soc'', JInt 80)])])),
           Response \<lparr>status = 200, text_result = Inr [], json_result = Inl ValueError\<rparr>]))
     = Inl ValueError \<and>
   (case fst (async_get_battery_data demo_deps None (demo_client (JStr ''t'')
          [Response (ok_response
             (JDict [(''code'', JInt 200), (''data'', JDict [(''soc'', JInt 80)])])),
           Raises ClientError])) of
      Inr (Some battery_data) \<Rightarrow> battery_data ''soc'' = Some (JInt 80)
    | _ \<Rightarrow> False)"
  by (subst async_get_battery_data.simps, simp add: eval_defs)+

section \<open>Claim C3: where the token is taken from\<close>

text \<open>
  Claim C3.  For a success login response (status 200, vendor code 0 or 200) whose body is
  a JSON object, the token is looked up under the top-level \<^verbatim>\<open>token\<close> key first and under
  \<^verbatim>\<open>data.token\<close> second (\<open>spec_token\<close>).  When a token is found the attempt, primary or
  fallback, returns true and the token field holds the value found; when neither place
  has one the attempt returns false and leaves the token as it was.  This holds for the
  bodies on which the search of \<^verbatim>\<open>data\<close> is defined (\<open>data_checkable\<close>): \<^verbatim>\<open>data\<close> is
  missing, falsy or an object, or an array or a string that does not contain
  \<^verbatim>\<open>"token"\<close>.
\<close>

theorem token_extraction_order:
  assumes "pending c = Response r # rest" "status r = 200" "json_result r = Inr (JDict kvs)"
    "py_eq_int (vendor_code kvs) 0 \<or> py_eq_int (vendor_code kvs) 200"
    "data_checkable kvs"
  shows "(case spec_token kvs of
            Some t \<Rightarrow> fst (async_login d c) = Inr True \<and> token (snd (async_login d c)) = t
          | None \<Rightarrow> fst (async_login d c) = Inr False \<and> token (snd (async_login d c)) = token c)
       \<and> (case spec_token kvs of
            Some t \<Rightarrow> fst (async_login_fallback c) = Inr True \<and>
                      token (snd (async_login_fallback c)) = t
          | None \<Rightarrow> fst (async_login_fallback c) = Inr False \<and>
                    token (snd (async_login_fallback c)) = token c)"
  by (simp add: login_on_success_response[OF assms(1-4)]
      fallback_on_success_response[OF assms(1-4)] store_token_checkable[OF assms(5)]
      split: option.splits)

theorem token_extraction_order_witness:
  "fst (async_login demo_deps (demo_client JNull
      [Response (ok_response (JDict [(''code'', JInt 200),
          (''data'', JDict [(''token'', JStr ''nested'')])]))])) = Inr True \<and>
   token (snd (async_login demo_deps (demo_client JNull
      [Response (ok_response (JDict [(''code'', JInt 200),
          (''data'', JDict [(''token'', JStr ''nested'')])]))]))) = JStr ''nested'' \<and>
   fst (async_login_fallback (demo_client JNull
      [Response (ok_response (JDict [(''code'', JInt 200),
          (''data'', JDict [(''token'', JStr ''nested'')])]))])) = Inr True"
  using token_extraction_order[of "demo_client JNull
      [Response (ok_response (JDict [(''code'', JInt 200),
          (''data'', JDict [(''token'', JStr ''nested'')])]))]"
      "ok_response (JDict [(''code'', JInt 200), (''data'', JDict [(''token'', JStr ''nested'')])])"
      "[]" "[(''code'', JInt 200), (''data'', JDict [(''token'', JStr ''nested'')])]" demo_deps]
  by (simp add: demo_defs vendor_code_def data_checkable_def spec_token_def)

text \<open>
  Without that condition the claim fails: on a success response with \<^verbatim>\<open>"data": true\<close> and
  no top-level token, neither place yields a token, and the attempt does not return false:
  \<^verbatim>\<open>"token" in result["data"]\<close> raises \<^verbatim>\<open>TypeError\<close>, which no handler of the client
  names, so \<^verbatim>\<open>login()\<close> raises.
\<close>

theorem login_raises_on_unexpected_data:
  "fst (async_login demo_deps (demo_client JNull
      [Response (ok_response (JDict [(''code'', JInt 200), (''data'', JBool True)]))]))
   = Inl TypeError"
  by (simp add: async_login_def prog_defs demo_defs code_is_error_def py_get_def
      extract_token_def)

section \<open>Claim C4: one fallback attempt\<close>

text \<open>
  Claim C4.  When the primary attempt fails, \<^verbatim>\<open>login()\<close> shall make exactly one fallback
  attempt, and the failure of that attempt shall make \<^verbatim>\<open>login()\<close> return false.  The
  client calls the fallback from its handler, outside the primary attempt's timeout block,
  after a transport failure or a timeout; after a status other than 200 or a vendor error
  code it calls it inside that block and inside the \<^verbatim>\<open>try\<close>.  There the deadline of the
  primary attempt can expire while the fallback request is pending: the cancellation leaves
  the fallback, the block turns it into \<^verbatim>\<open>TimeoutError\<close>, and the handler of the primary
  attempt runs the fallback a second time.  In the run below the primary attempt is
  answered with status 500, the first fallback is cut off by that deadline and the second
  is answered with a token: one JSON request, two form requests, and \<^verbatim>\<open>login()\<close> returns
  true after a fallback attempt has failed.
\<close>

theorem fallback_runs_twice:
  "fst (async_login demo_deps (demo_client JNull
          [Response (status_response 500), Raises (CancelledError 1),
           Response (ok_response (JDict [(''code'', JInt 200), (''token'', JStr ''t'')]))]))
     = Inr True \<and>
   login_posts (events (snd (async_login demo_deps (demo_client JNull
          [Response (status_response 500), Raises (CancelledError 1),
           Response (ok_response (JDict [(''code'', JInt 200), (''token'', JStr ''t'')]))]))))
     = 1 \<and>
   fallback_posts (events (snd (async_login demo_deps (demo_client JNull
          [Response (status_response 500), Raises (CancelledError 1),
           Response (ok_response (JDict [(''code'', JInt 200), (''token'', JStr ''t'')]))]))))
     = 2"
  by (simp add: eval_defs)

section \<open>Claim C5: no exception leaves the client\<close>




section \<open>Claim C6: which vendor codes count as success\<close>



section \<open>Claim C8: a failed login leaves the token alone\<close>

text \<open>
  Claim C8.  Whenever \<^verbatim>\<open>login()\<close> returns false, whatever made the primary and the
  fallback attempt fail, the token field is what it was before the call: a token that was
  absent stays absent and a stale token stays in place.
\<close>

theorem login_false_keeps_token:
  "async_login d c = (Inr False, c') \<Longrightarrow> token c' = token c"
  using unless_true_login[of d] by (auto simp: unless_true_def dest: spec[where x=c])

theorem login_false_keeps_token_witness:
  "fst (async_login demo_deps (demo_client (JStr ''stale'')
          [Response (status_response 500), Raises TimeoutError])) = Inr False \<and>
   token (snd (async_login demo_deps (demo_client (JStr ''stale'')
          [Response (status_response 500), Raises TimeoutError]))) = JStr ''stale''"
proof -
  let ?c = "demo_client (JStr ''stale'') [Response (status_response 500), Raises TimeoutError]"
  have r: "fst (async_login demo_deps ?c) = Inr False"
    by (simp add: async_login_def async_login_fallback_def prog_defs demo_defs)
  then have "async_login demo_deps ?c = (Inr False, snd (async_login demo_deps ?c))"
    by (simp add: prod_eq_iff)
  from login_false_keeps_token[OF this] r show ?thesis
    by (simp add: demo_client_def)
qed

section \<open>Claim C9: the writes to the token\<close>




section \<open>Claim C10: which keys of the today's summary are present\<close>




end
